theory Spec2Isabelle
  imports Main "HOL-Library.Sublist"
begin

section \<open>JavaScript values\<close>

text \<open>
  \<^verbatim>\<open>server.js\<close> is dynamically typed: tool arguments and remote responses are whatever
  JSON arrives. A value is a JSON value or \<^verbatim>\<open>undefined\<close> (what reading a missing
  property gives). Numbers are the integers, rendered in decimal as JavaScript renders
  every integer of magnitude below \<open>10^21\<close>; strings are byte strings (UTF-8), so
  index arithmetic (\<^verbatim>\<open>substring\<close>) and \<^verbatim>\<open>toLowerCase\<close> agree with JavaScript on ASCII
  text, which identifiers, action names and port keys are. The entries of an object are
  its own properties in insertion order, with distinct keys as \<^verbatim>\<open>JSON.parse\<close> builds them.
\<close>

datatype jsval =
    JUndef
  | JNull
  | JBool bool
  | JNum int
  | JStr string
  | JArr "jsval list"
  | JObj "(string \<times> jsval) list"

text \<open>
  What the handlers can throw: an \<^verbatim>\<open>McpError\<close> (the code and the message passed to
  its constructor), a \<^verbatim>\<open>TypeError\<close> of the runtime (reading a property of
  \<^verbatim>\<open>undefined\<close> or \<^verbatim>\<open>null\<close>, calling a method the value does not have), or the
  rejection of an axios call: with the response (status, body) when the remote answered
  outside 2xx, without one when it could not be reached.
\<close>

datatype error_code = InternalError | MethodNotFound

datatype js_error =
    McpError error_code string
  | TypeError
  | AxiosError "(nat \<times> jsval) option"

definition and_then :: "'e + 'a \<Rightarrow> ('a \<Rightarrow> 'e + 'b) \<Rightarrow> 'e + 'b" where
  "and_then m f = (case m of Inl e \<Rightarrow> Inl e | Inr v \<Rightarrow> f v)"

text \<open>\<^verbatim>\<open>Array.prototype.map\<close> with a callback that can throw: the first throw ends the loop.\<close>

fun mapE :: "('a \<Rightarrow> 'e + 'b) \<Rightarrow> 'a list \<Rightarrow> 'e + 'b list" where
  "mapE f [] = Inr []"
| "mapE f (x # xs) =
     (case f x of
        Inl e \<Rightarrow> Inl e
      | Inr y \<Rightarrow> (case mapE f xs of Inl e \<Rightarrow> Inl e | Inr ys \<Rightarrow> Inr (y # ys)))"

text \<open>Truthiness, as \<^verbatim>\<open>!x\<close>, \<^verbatim>\<open>x ? a : b\<close> and \<^verbatim>\<open>x || d\<close> test it.\<close>

fun truthy :: "jsval \<Rightarrow> bool" where
  "truthy JUndef = False"
| "truthy JNull = False"
| "truthy (JBool b) = b"
| "truthy (JNum n) = (n \<noteq> 0)"
| "truthy (JStr s) = (s \<noteq> [])"
| "truthy (JArr xs) = True"
| "truthy (JObj kvs) = True"

definition js_or :: "jsval \<Rightarrow> jsval \<Rightarrow> jsval" where
  "js_or x d = (if truthy x then x else d)"

text \<open>
  \<^verbatim>\<open>x.k\<close> for the property names the source reads (none of them is a built-in
  property of a string, an array, a number or a boolean): a \<^verbatim>\<open>TypeError\<close> on
  \<^verbatim>\<open>undefined\<close> and \<^verbatim>\<open>null\<close>; otherwise \<open>field\<close>, the stored value on an
  object that has the key and \<^verbatim>\<open>undefined\<close> in every other case.
\<close>

definition nullish :: "jsval \<Rightarrow> bool" where
  "nullish v = (v = JUndef \<or> v = JNull)"

fun field :: "jsval \<Rightarrow> string \<Rightarrow> jsval" where
  "field (JObj kvs) k = (case map_of kvs k of Some v \<Rightarrow> v | None \<Rightarrow> JUndef)"
| "field v k = JUndef"

definition get_prop :: "jsval \<Rightarrow> string \<Rightarrow> js_error + jsval" where
  "get_prop v k = (if nullish v then Inl TypeError else Inr (field v k))"

text \<open>
  \<^verbatim>\<open>obj[k] = v\<close> on an object whose keys are not array indices: an existing key
  keeps its place and takes the new value, a new key goes last.
\<close>

fun set_prop :: "(string \<times> jsval) list \<Rightarrow> string \<Rightarrow> jsval \<Rightarrow> (string \<times> jsval) list" where
  "set_prop [] k v = [(k, v)]"
| "set_prop ((k', v') # kvs) k v = (if k' = k then (k, v) # kvs else (k', v') # set_prop kvs k v)"

text \<open>\<^verbatim>\<open>xs.forEach(f)\<close> with a callback that updates a state and can throw.\<close>

fun foldE :: "('s \<Rightarrow> 'a \<Rightarrow> 'e + 's) \<Rightarrow> 's \<Rightarrow> 'a list \<Rightarrow> 'e + 's" where
  "foldE f s [] = Inr s"
| "foldE f s (x # xs) = (case f s x of Inl e \<Rightarrow> Inl e | Inr s' \<Rightarrow> foldE f s' xs)"

definition js_forEach :: "('s \<Rightarrow> jsval \<Rightarrow> js_error + 's) \<Rightarrow> 's \<Rightarrow> jsval \<Rightarrow> js_error + 's" where
  "js_forEach f s v = (case v of JArr xs \<Rightarrow> foldE f s xs | _ \<Rightarrow> Inl TypeError)"

section \<open>Strings\<close>

definition nl :: string where
  "nl = [CHR 0x0A]"

definition digit_char :: "nat \<Rightarrow> char" where
  "digit_char n = ''0123456789'' ! n"

fun show_nat :: "nat \<Rightarrow> string" where
  "show_nat n = (if n < 10 then [digit_char n] else show_nat (n div 10) @ [digit_char (n mod 10)])"

declare show_nat.simps [simp del]

definition show_int :: "int \<Rightarrow> string" where
  "show_int i = (if i < 0 then CHR ''-'' # show_nat (nat (- i)) else show_nat (nat i))"

text \<open>\<^verbatim>\<open>xs.join(sep)\<close> on an array of strings.\<close>

fun join :: "string \<Rightarrow> string list \<Rightarrow> string" where
  "join sep [] = []"
| "join sep [x] = x"
| "join sep (x # y # ys) = x @ sep @ join sep (y # ys)"

text \<open>
  \<^verbatim>\<open>String(x)\<close>, which a template literal \<^verbatim>\<open>${x}\<close> applies: an array joins its
  elements with a comma, \<^verbatim>\<open>null\<close> and \<^verbatim>\<open>undefined\<close> elements contributing the empty
  string; an object (taken not to shadow \<^verbatim>\<open>toString\<close>) prints as
  \<^verbatim>\<open>[object Object]\<close>.
\<close>

fun js_string :: "jsval \<Rightarrow> string" where
  "js_string JUndef = ''undefined''"
| "js_string JNull = ''null''"
| "js_string (JBool b) = (if b then ''true'' else ''false'')"
| "js_string (JNum n) = show_int n"
| "js_string (JStr s) = s"
| "js_string (JArr xs) =
     join '','' (map (\<lambda>x. if x = JUndef \<or> x = JNull then [] else js_string x) xs)"
| "js_string (JObj kvs) = ''[object Object]''"

text \<open>\<^verbatim>\<open>x.toString()\<close>: a \<^verbatim>\<open>TypeError\<close> on \<^verbatim>\<open>undefined\<close> and \<^verbatim>\<open>null\<close>.\<close>

definition js_toString :: "jsval \<Rightarrow> js_error + string" where
  "js_toString x = (if x = JUndef \<or> x = JNull then Inl TypeError else Inr (js_string x))"

text \<open>\<^verbatim>\<open>xs.join(sep)\<close> on an array of any values; only an array has the method.\<close>

definition js_join :: "jsval \<Rightarrow> string \<Rightarrow> js_error + string" where
  "js_join v sep =
     (case v of
        JArr xs \<Rightarrow> Inr (join sep (map (\<lambda>x. if x = JUndef \<or> x = JNull then [] else js_string x) xs))
      | _ \<Rightarrow> Inl TypeError)"

text \<open>\<^verbatim>\<open>xs.map(f)\<close>: only an array has the method.\<close>

definition js_map :: "(jsval \<Rightarrow> js_error + 'b) \<Rightarrow> jsval \<Rightarrow> js_error + 'b list" where
  "js_map f v = (case v of JArr xs \<Rightarrow> mapE f xs | _ \<Rightarrow> Inl TypeError)"

text \<open>
  \<^verbatim>\<open>s.substring(a, b)\<close>: both indices are clamped to the length and swapped when out
  of order; only a string has the method.
\<close>

definition substring :: "string \<Rightarrow> nat \<Rightarrow> nat \<Rightarrow> string" where
  "substring s a b =
     (let a' = min a (length s); b' = min b (length s)
      in take (max a' b' - min a' b') (drop (min a' b') s))"

definition js_substring :: "jsval \<Rightarrow> nat \<Rightarrow> nat \<Rightarrow> js_error + string" where
  "js_substring v a b = (case v of JStr s \<Rightarrow> Inr (substring s a b) | _ \<Rightarrow> Inl TypeError)"

text \<open>
  \<^verbatim>\<open>s.replace(pat, rep)\<close> with a string pattern: the first occurrence only, wherever
  it stands.
\<close>

fun replace :: "string \<Rightarrow> string \<Rightarrow> string \<Rightarrow> string" where
  "replace [] pat rep = (if pat = [] then rep else [])"
| "replace (c # cs) pat rep =
     (if prefix pat (c # cs) then rep @ drop (length pat) (c # cs)
      else c # replace cs pat rep)"

definition js_replace :: "jsval \<Rightarrow> string \<Rightarrow> string \<Rightarrow> js_error + string" where
  "js_replace v pat rep = (case v of JStr s \<Rightarrow> Inr (replace s pat rep) | _ \<Rightarrow> Inl TypeError)"

text \<open>
  \<^verbatim>\<open>x[0]\<close>: the first element of an array, the first character of a string, the
  property \<^verbatim>\<open>"0"\<close> of an object.
\<close>

fun get_first :: "jsval \<Rightarrow> js_error + jsval" where
  "get_first JUndef = Inl TypeError"
| "get_first JNull = Inl TypeError"
| "get_first (JArr xs) = Inr (case xs of [] \<Rightarrow> JUndef | x # _ \<Rightarrow> x)"
| "get_first (JStr s) = Inr (case s of [] \<Rightarrow> JUndef | c # _ \<Rightarrow> JStr [c])"
| "get_first (JObj kvs) = Inr (case map_of kvs ''0'' of Some v \<Rightarrow> v | None \<Rightarrow> JUndef)"
| "get_first v = Inr JUndef"

text \<open>\<^verbatim>\<open>s.toLowerCase()\<close> on ASCII, and \<^verbatim>\<open>s.includes(w)\<close>.\<close>

definition toLowerCase_char :: "char \<Rightarrow> char" where
  "toLowerCase_char c =
     (let n = (of_char c :: nat) in if 65 \<le> n \<and> n \<le> 90 then char_of (n + 32) else c)"

definition toLowerCase :: "string \<Rightarrow> string" where
  "toLowerCase s = map toLowerCase_char s"

fun js_includes :: "string \<Rightarrow> string \<Rightarrow> bool" where
  "js_includes [] w = (w = [])"
| "js_includes (c # cs) w = (prefix w (c # cs) \<or> js_includes cs w)"

text \<open>
  \<^verbatim>\<open>Object.keys(x)\<close>: the keys that are array indices first, in ascending order, then
  the others in insertion order; the indices of a string or an array; nothing for a
  number or a boolean.
\<close>

definition read_nat :: "string \<Rightarrow> nat" where
  "read_nat k = foldl (\<lambda>a c. 10 * a + (of_char c - 48)) 0 k"

definition is_array_index :: "string \<Rightarrow> bool" where
  "is_array_index k =
     (k \<noteq> [] \<and> list_all (\<lambda>c. 48 \<le> (of_char c :: nat) \<and> (of_char c :: nat) \<le> 57) k
      \<and> (k = ''0'' \<or> hd k \<noteq> CHR ''0'') \<and> read_nat k < 4294967295)"

definition object_keys :: "(string \<times> jsval) list \<Rightarrow> string list" where
  "object_keys kvs =
     sort_key read_nat (filter is_array_index (map fst kvs))
     @ filter (\<lambda>k. \<not> is_array_index k) (map fst kvs)"

fun js_object_keys :: "jsval \<Rightarrow> js_error + string list" where
  "js_object_keys JUndef = Inl TypeError"
| "js_object_keys JNull = Inl TypeError"
| "js_object_keys (JObj kvs) = Inr (object_keys kvs)"
| "js_object_keys (JArr xs) = Inr (map show_nat [0..<length xs])"
| "js_object_keys (JStr s) = Inr (map show_nat [0..<length s])"
| "js_object_keys v = Inr []"

section \<open>The safety gate\<close>

text \<open>
  \<^verbatim>\<open>function requiresConfirmation(action)\<close>, on a string; the handler's call with
  another value is a \<^verbatim>\<open>TypeError\<close> (\<^verbatim>\<open>action.toLowerCase\<close> is not a function).
\<close>

definition dangerous :: "string list" where
  "dangerous = [''remove'', ''delete'', ''stop'', ''restart'', ''kill'', ''prune'']"

definition requiresConfirmation :: "string \<Rightarrow> bool" where
  "requiresConfirmation action =
     list_ex (\<lambda>word. js_includes (toLowerCase action) word) dangerous"

definition js_requiresConfirmation :: "jsval \<Rightarrow> js_error + bool" where
  "js_requiresConfirmation v =
     (case v of JStr action \<Rightarrow> Inr (requiresConfirmation action) | _ \<Rightarrow> Inl TypeError)"




section \<open>Configuration, remote calls and results\<close>

text \<open>
  The process environment the module reads once, and the platform functions the
  handlers call whose results depend on floating point or on the locale:
  \<^verbatim>\<open>JSON.stringify(x)\<close>, \<^verbatim>\<open>(x / 1024 / 1024).toFixed(2)\<close>,
  \<^verbatim>\<open>(x / 1024 / 1024 / 1024).toFixed(2)\<close> and
  \<^verbatim>\<open>new Date(x * 1000).toLocaleDateString()\<close>. They are parameters.
\<close>

record env =
  PORTAINER_TOKEN :: "string option"
  PORTAINER_ENDPOINT_ID :: "string option"
  json_stringify :: "jsval \<Rightarrow> string"
  mb_fixed2 :: "jsval \<Rightarrow> string"
  gb_fixed2 :: "jsval \<Rightarrow> string"
  locale_date :: "jsval \<Rightarrow> string"

text \<open>\<^verbatim>\<open>!PORTAINER_TOKEN\<close> is false when the variable is set to a non-empty string.\<close>

definition token_configured :: "env \<Rightarrow> bool" where
  "token_configured E = (case PORTAINER_TOKEN E of None \<Rightarrow> False | Some t \<Rightarrow> t \<noteq> [])"

text \<open>\<^verbatim>\<open>process.env.PORTAINER_ENDPOINT_ID || 1\<close>, as a template literal prints it.\<close>

definition endpoint_id :: "env \<Rightarrow> string" where
  "endpoint_id E =
     (case PORTAINER_ENDPOINT_ID E of None \<Rightarrow> ''1'' | Some i \<Rightarrow> if i = [] then ''1'' else i)"

text \<open>
  A call of the axios instance: \<^verbatim>\<open>api.get(url, config)\<close> or
  \<^verbatim>\<open>api.post(url, data, config)\<close>, an argument left out being \<^verbatim>\<open>undefined\<close>. The
  remote answers each request knowing the calls the invocation has made so far. The log
  records every call with its answer, in order.
\<close>

datatype http_method = GET | POST

record request =
  req_method :: http_method
  req_url :: string
  req_data :: jsval
  req_config :: jsval

datatype response =
    Success jsval
  | HttpFailure nat jsval
  | NoResponse

type_synonym call_log = "(request \<times> response) list"

type_synonym remote = "call_log \<Rightarrow> request \<Rightarrow> response"

definition api_request :: "remote \<Rightarrow> request \<Rightarrow> call_log \<Rightarrow> (js_error + jsval) \<times> call_log" where
  "api_request R rq lg =
     (let rs = R lg rq
      in (case rs of
            Success d \<Rightarrow> Inr d
          | HttpFailure st body \<Rightarrow> Inl (AxiosError (Some (st, body)))
          | NoResponse \<Rightarrow> Inl (AxiosError None),
          lg @ [(rq, rs)]))"

text \<open>A ToolResult: \<^verbatim>\<open>{ content: [{ type: 'text', text: ... }] }\<close>.\<close>

record content_item =
  item_type :: string
  item_text :: string

type_synonym tool_result = "content_item list"

definition text_result :: "string \<Rightarrow> tool_result" where
  "text_result t = [\<lparr>item_type = ''text'', item_text = t\<rparr>]"

text \<open>A handler that makes one call and renders its answer.\<close>

definition render_call ::
  "(js_error + jsval) \<times> call_log \<Rightarrow> (jsval \<Rightarrow> js_error + string)
     \<Rightarrow> (js_error + tool_result) \<times> call_log" where
  "render_call r f =
     (case fst r of
        Inl e \<Rightarrow> Inl e
      | Inr d \<Rightarrow> (case f d of Inl e \<Rightarrow> Inl e | Inr t \<Rightarrow> Inr (text_result t)),
      snd r)"

text \<open>The pictographs of the messages, as their UTF-8 bytes, and the single quote.\<close>

definition warning_sign :: string where
  "warning_sign = [CHR 0xE2, CHR 0x9A, CHR 0xA0, CHR 0xEF, CHR 0xB8, CHR 0x8F]"

definition package_sign :: string where
  "package_sign = [CHR 0xF0, CHR 0x9F, CHR 0x93, CHR 0xA6]"

definition check_mark :: string where
  "check_mark = [CHR 0xE2, CHR 0x9C, CHR 0x85]"

definition picture_sign :: string where
  "picture_sign = [CHR 0xF0, CHR 0x9F, CHR 0x96, CHR 0xBC, CHR 0xEF, CHR 0xB8, CHR 0x8F]"

definition disk_sign :: string where
  "disk_sign = [CHR 0xF0, CHR 0x9F, CHR 0x92, CHR 0xBE]"

definition globe_sign :: string where
  "globe_sign = [CHR 0xF0, CHR 0x9F, CHR 0x8C, CHR 0x90]"

definition desktop_sign :: string where
  "desktop_sign = [CHR 0xF0, CHR 0x9F, CHR 0x96, CHR 0xA5, CHR 0xEF, CHR 0xB8, CHR 0x8F]"

definition penguin_sign :: string where
  "penguin_sign = [CHR 0xF0, CHR 0x9F, CHR 0x90, CHR 0xA7]"

definition crane_sign :: string where
  "crane_sign = [CHR 0xF0, CHR 0x9F, CHR 0x8F, CHR 0x97, CHR 0xEF, CHR 0xB8, CHR 0x8F]"

definition abacus_sign :: string where
  "abacus_sign = [CHR 0xF0, CHR 0x9F, CHR 0xA7, CHR 0xAE]"

definition optical_disk_sign :: string where
  "optical_disk_sign = [CHR 0xF0, CHR 0x9F, CHR 0x92, CHR 0xBF]"

definition folder_sign :: string where
  "folder_sign = [CHR 0xF0, CHR 0x9F, CHR 0x93, CHR 0x82]"

definition sq :: string where
  "sq = [CHR 0x27]"

section \<open>The handlers\<close>

subsection \<open>listContainers\<close>

record container_view =
  cv_id :: string
  cv_name :: string
  cv_image :: jsval
  cv_status :: jsval
  cv_state :: jsval
  cv_ports :: string

definition port_summary :: "jsval \<Rightarrow> js_error + string" where
  "port_summary p =
     (if nullish p then Inl TypeError
      else Inr (if truthy (field p ''PublicPort'')
                then js_string (field p ''PublicPort'') @ '':'' @ js_string (field p ''PrivatePort'')
                else js_string (field p ''PrivatePort'')))"

definition project_container :: "jsval \<Rightarrow> js_error + container_view" where
  "project_container c =
     (if nullish c then Inl TypeError
      else and_then (js_substring (field c ''Id'') 0 12) (\<lambda>short.
           and_then (get_first (field c ''Names'')) (\<lambda>first_name.
           and_then (js_replace first_name ''/'' []) (\<lambda>name.
           and_then (js_map port_summary (field c ''Ports'')) (\<lambda>ports.
           Inr \<lparr>cv_id = short, cv_name = name, cv_image = field c ''Image'',
                cv_status = field c ''Status'', cv_state = field c ''State'',
                cv_ports = join '', '' ports\<rparr>)))))"

definition render_container :: "container_view \<Rightarrow> string" where
  "render_container c =
     package_sign @ '' '' @ cv_name c @ '' ('' @ cv_id c @ '')'' @ nl
     @ ''   Image: '' @ js_string (cv_image c) @ nl
     @ ''   Status: '' @ js_string (cv_status c) @ nl
     @ ''   Ports: '' @ (if cv_ports c = [] then ''none'' else cv_ports c) @ nl"

definition listContainers_text :: "jsval \<Rightarrow> js_error + string" where
  "listContainers_text d =
     and_then (js_map project_container d) (\<lambda>containers.
     Inr (''Found '' @ show_nat (length containers) @ '' containers:'' @ nl @ nl
          @ join nl (map render_container containers)))"

definition listContainers :: "env \<Rightarrow> remote \<Rightarrow> jsval \<Rightarrow> (js_error + tool_result) \<times> call_log" where
  "listContainers E R all_arg =
     (let all = (if all_arg = JUndef then JBool True else all_arg)
      in render_call
           (api_request R
              \<lparr>req_method = GET,
               req_url = ''/api/endpoints/'' @ endpoint_id E @ ''/docker/containers/json'',
               req_data = JUndef,
               req_config = JObj [(''params'', JObj [(''all'', all)])]\<rparr> [])
           listContainers_text)"

subsection \<open>getContainerInfo\<close>

definition mount_line :: "jsval \<Rightarrow> js_error + string" where
  "mount_line m =
     (if nullish m then Inl TypeError
      else Inr (''  - '' @ js_string (field m ''Source'') @ '' -> ''
                @ js_string (field m ''Destination'')))"

text \<open>
  The template of the text, as a function of the values it prints; the part that prints
  the mounts is
  \<^verbatim>\<open>Mounts:\n${c.Mounts.map(...).join('\n') || '  none'}\n\<close>.
\<close>

definition mounts_section :: "string list \<Rightarrow> string" where
  "mounts_section mount_lines =
     ''Mounts:'' @ nl
     @ (if join nl mount_lines = [] then ''  none'' else join nl mount_lines) @ nl"

definition container_info_template ::
  "string \<Rightarrow> string \<Rightarrow> jsval \<Rightarrow> jsval \<Rightarrow> jsval \<Rightarrow> jsval \<Rightarrow> string list \<Rightarrow> string list
     \<Rightarrow> string list \<Rightarrow> string" where
  "container_info_template name short status started img policy_name env_lines mount_lines
     network_names =
     ''Container: '' @ name @ '' ('' @ short @ '')'' @ nl
     @ ''State: '' @ js_string status @ nl
     @ ''Started: '' @ js_string started @ nl
     @ ''Image: '' @ js_string img @ nl
     @ ''Restart Policy: '' @ js_string policy_name @ nl
     @ ''Environment:'' @ nl @ join nl env_lines @ nl
     @ mounts_section mount_lines
     @ ''Networks: '' @ join '', '' network_names"

definition getContainerInfo_text :: "jsval \<Rightarrow> js_error + string" where
  "getContainerInfo_text c =
     (if nullish c then Inl TypeError
      else and_then (js_replace (field c ''Name'') ''/'' []) (\<lambda>name.
           and_then (js_substring (field c ''Id'') 0 12) (\<lambda>short.
           and_then (get_prop (field c ''State'') ''Status'') (\<lambda>status.
           and_then (get_prop (field c ''State'') ''StartedAt'') (\<lambda>started.
           and_then (get_prop (field c ''Config'') ''Image'') (\<lambda>img.
           and_then (get_prop (field c ''HostConfig'') ''RestartPolicy'') (\<lambda>policy.
           and_then (get_prop policy ''Name'') (\<lambda>policy_name.
           and_then (js_map (\<lambda>e. Inr (''  - '' @ js_string e)) (field (field c ''Config'') ''Env''))
             (\<lambda>env_lines.
           and_then (js_map mount_line (field c ''Mounts'')) (\<lambda>mount_lines.
           and_then (get_prop (field c ''NetworkSettings'') ''Networks'') (\<lambda>networks.
           and_then (js_object_keys networks) (\<lambda>network_names.
           Inr (container_info_template name short status started img policy_name env_lines
                  mount_lines network_names)))))))))))))"

definition getContainerInfo :: "env \<Rightarrow> remote \<Rightarrow> jsval \<Rightarrow> (js_error + tool_result) \<times> call_log" where
  "getContainerInfo E R containerId =
     render_call
       (api_request R
          \<lparr>req_method = GET,
           req_url = ''/api/endpoints/'' @ endpoint_id E @ ''/docker/containers/''
                     @ js_string containerId @ ''/json'',
           req_data = JUndef,
           req_config = JUndef\<rparr> [])
       getContainerInfo_text"

subsection \<open>getContainerLogs and containerAction\<close>

definition getContainerLogs ::
  "env \<Rightarrow> remote \<Rightarrow> jsval \<Rightarrow> jsval \<Rightarrow> (js_error + tool_result) \<times> call_log" where
  "getContainerLogs E R containerId tail_arg =
     (let tail = (if tail_arg = JUndef then JNum 100 else tail_arg)
      in render_call
           (api_request R
              \<lparr>req_method = GET,
               req_url = ''/api/endpoints/'' @ endpoint_id E @ ''/docker/containers/''
                         @ js_string containerId @ ''/logs'',
               req_data = JUndef,
               req_config =
                 JObj [(''params'', JObj [(''stdout'', JBool True), (''stderr'', JBool True),
                                          (''tail'', tail)]),
                       (''responseType'', JStr ''text'')]\<rparr> [])
           (\<lambda>d. Inr (''Logs for container '' @ js_string containerId @ '' (last ''
                     @ js_string tail @ '' lines):'' @ nl @ nl @ js_string d)))"

definition containerAction ::
  "env \<Rightarrow> remote \<Rightarrow> jsval \<Rightarrow> jsval \<Rightarrow> (js_error + tool_result) \<times> call_log" where
  "containerAction E R containerId action =
     render_call
       (api_request R
          \<lparr>req_method = POST,
           req_url = ''/api/endpoints/'' @ endpoint_id E @ ''/docker/containers/''
                     @ js_string containerId @ ''/'' @ js_string action,
           req_data = JUndef,
           req_config = JUndef\<rparr> [])
       (\<lambda>d. Inr (check_mark @ '' Successfully performed '' @ sq @ js_string action @ sq
                 @ '' on container '' @ js_string containerId))"

subsection \<open>createContainer\<close>

text \<open>
  The \<^verbatim>\<open>forEach\<close> over \<^verbatim>\<open>args.ports\<close> assigns into \<^verbatim>\<open>config.ExposedPorts\<close> and
  \<^verbatim>\<open>config.HostConfig.PortBindings\<close>; the state of the loop is the entries of the two
  objects.
\<close>

definition port_key :: "jsval \<Rightarrow> string" where
  "port_key p = js_string (field p ''container'') @ ''/tcp''"

definition add_port ::
  "(string \<times> jsval) list \<times> (string \<times> jsval) list \<Rightarrow> jsval
     \<Rightarrow> js_error + (string \<times> jsval) list \<times> (string \<times> jsval) list" where
  "add_port st p =
     (if nullish p then Inl TypeError
      else and_then (js_toString (field p ''host'')) (\<lambda>host.
           Inr (set_prop (fst st) (port_key p) (JObj []),
                set_prop (snd st) (port_key p) (JArr [JObj [(''HostPort'', JStr host)]]))))"

definition bind_string :: "jsval \<Rightarrow> js_error + jsval" where
  "bind_string v =
     (if nullish v then Inl TypeError
      else Inr (JStr (js_string (field v ''host'') @ '':'' @ js_string (field v ''container''))))"

definition build_config :: "jsval \<Rightarrow> js_error + jsval" where
  "build_config args =
     (if nullish args then Inl TypeError
      else and_then (if truthy (field args ''ports'')
                     then js_forEach add_port ([], []) (field args ''ports'')
                     else Inr ([], [])) (\<lambda>ports.
           and_then (if truthy (field args ''volumes'')
                     then js_map bind_string (field args ''volumes'')
                     else Inr []) (\<lambda>binds.
           Inr (JObj
             [(''Image'', field args ''image''),
              (''name'', field args ''name''),
              (''Env'', js_or (field args ''env'') (JArr [])),
              (''HostConfig'', JObj
                 [(''RestartPolicy'', JObj
                     [(''Name'', js_or (field args ''restart_policy'') (JStr ''unless-stopped''))]),
                  (''PortBindings'', JObj (snd ports)),
                  (''Binds'', JArr binds)]),
              (''ExposedPorts'', JObj (fst ports))]))))"

definition create_request :: "env \<Rightarrow> jsval \<Rightarrow> jsval \<Rightarrow> request" where
  "create_request E args cfg =
     \<lparr>req_method = POST,
      req_url = ''/api/endpoints/'' @ endpoint_id E @ ''/docker/containers/create'',
      req_data = cfg,
      req_config = JObj [(''params'', JObj [(''name'', field args ''name'')])]\<rparr>"

definition start_request :: "env \<Rightarrow> jsval \<Rightarrow> request" where
  "start_request E created_id =
     \<lparr>req_method = POST,
      req_url = ''/api/endpoints/'' @ endpoint_id E @ ''/docker/containers/''
                @ js_string created_id @ ''/start'',
      req_data = JUndef,
      req_config = JUndef\<rparr>"

text \<open>
  The success message:
  \<^verbatim>\<open>Container '${args.name}' created and started successfully!\nID: ${...substring(0, 12)}\<close>
  after the check mark.
\<close>

definition created_message :: "jsval \<Rightarrow> string \<Rightarrow> string" where
  "created_message name short =
     check_mark @ '' Container '' @ sq @ js_string name @ sq
     @ '' created and started successfully!'' @ nl @ ''ID: '' @ short"

definition createContainer :: "env \<Rightarrow> remote \<Rightarrow> jsval \<Rightarrow> (js_error + tool_result) \<times> call_log" where
  "createContainer E R args =
     (case build_config args of
        Inl e \<Rightarrow> (Inl e, [])
      | Inr cfg \<Rightarrow>
          (case api_request R (create_request E args cfg) [] of
             (Inl e, lg) \<Rightarrow> (Inl e, lg)
           | (Inr d, lg) \<Rightarrow>
               (case get_prop d ''Id'' of
                  Inl e \<Rightarrow> (Inl e, lg)
                | Inr created_id \<Rightarrow>
                    (case api_request R (start_request E created_id) lg of
                       (Inl e, lg') \<Rightarrow> (Inl e, lg')
                     | (Inr started, lg') \<Rightarrow>
                         (case js_substring created_id 0 12 of
                            Inl e \<Rightarrow> (Inl e, lg')
                          | Inr short \<Rightarrow>
                              (Inr (text_result (created_message (field args ''name'') short)),
                               lg'))))))"

subsection \<open>listImages, listVolumes, listNetworks\<close>

record image_view =
  iv_id :: string
  iv_tags :: jsval
  iv_size :: string
  iv_created :: string

definition project_image :: "env \<Rightarrow> jsval \<Rightarrow> js_error + image_view" where
  "project_image E img =
     (if nullish img then Inl TypeError
      else and_then (js_substring (field img ''Id'') 7 19) (\<lambda>short.
           Inr \<lparr>iv_id = short,
                iv_tags = js_or (field img ''RepoTags'') (JArr [JStr ''<none>'']),
                iv_size = mb_fixed2 E (field img ''Size'') @ '' MB'',
                iv_created = locale_date E (field img ''Created'')\<rparr>))"

definition render_image :: "image_view \<Rightarrow> js_error + string" where
  "render_image img =
     and_then (js_join (iv_tags img) '', '') (\<lambda>tags.
     Inr (picture_sign @ ''  '' @ tags @ nl
          @ ''   ID: '' @ iv_id img @ nl
          @ ''   Size: '' @ iv_size img @ nl
          @ ''   Created: '' @ iv_created img @ nl))"

definition listImages_text :: "env \<Rightarrow> jsval \<Rightarrow> js_error + string" where
  "listImages_text E d =
     and_then (js_map (project_image E) d) (\<lambda>images.
     and_then (mapE render_image images) (\<lambda>items.
     Inr (''Found '' @ show_nat (length images) @ '' images:'' @ nl @ nl @ join nl items)))"

definition listImages :: "env \<Rightarrow> remote \<Rightarrow> (js_error + tool_result) \<times> call_log" where
  "listImages E R =
     render_call
       (api_request R
          \<lparr>req_method = GET,
           req_url = ''/api/endpoints/'' @ endpoint_id E @ ''/docker/images/json'',
           req_data = JUndef,
           req_config = JUndef\<rparr> [])
       (listImages_text E)"

definition volume_item :: "jsval \<Rightarrow> js_error + string" where
  "volume_item v =
     (if nullish v then Inl TypeError
      else Inr (disk_sign @ '' '' @ js_string (field v ''Name'') @ nl
                @ ''   Driver: '' @ js_string (field v ''Driver'') @ nl
                @ ''   Mountpoint: '' @ js_string (field v ''Mountpoint'') @ nl))"

definition listVolumes_text :: "jsval \<Rightarrow> js_error + string" where
  "listVolumes_text d =
     and_then (get_prop d ''Volumes'') (\<lambda>listed.
     and_then (js_map volume_item (js_or listed (JArr []))) (\<lambda>items.
     Inr (''Found '' @ show_nat (length items) @ '' volumes:'' @ nl @ nl @ join nl items)))"

definition listVolumes :: "env \<Rightarrow> remote \<Rightarrow> (js_error + tool_result) \<times> call_log" where
  "listVolumes E R =
     render_call
       (api_request R
          \<lparr>req_method = GET,
           req_url = ''/api/endpoints/'' @ endpoint_id E @ ''/docker/volumes'',
           req_data = JUndef,
           req_config = JUndef\<rparr> [])
       listVolumes_text"

record network_view =
  nv_id :: string
  nv_name :: jsval
  nv_driver :: jsval
  nv_scope :: jsval

definition project_network :: "jsval \<Rightarrow> js_error + network_view" where
  "project_network n =
     (if nullish n then Inl TypeError
      else and_then (js_substring (field n ''Id'') 0 12) (\<lambda>short.
           Inr \<lparr>nv_id = short, nv_name = field n ''Name'', nv_driver = field n ''Driver'',
                nv_scope = field n ''Scope''\<rparr>))"

definition render_network :: "network_view \<Rightarrow> string" where
  "render_network n =
     globe_sign @ '' '' @ js_string (nv_name n) @ '' ('' @ nv_id n @ '')'' @ nl
     @ ''   Driver: '' @ js_string (nv_driver n) @ nl
     @ ''   Scope: '' @ js_string (nv_scope n) @ nl"

definition listNetworks_text :: "jsval \<Rightarrow> js_error + string" where
  "listNetworks_text d =
     and_then (js_map project_network d) (\<lambda>networks.
     Inr (''Found '' @ show_nat (length networks) @ '' networks:'' @ nl @ nl
          @ join nl (map render_network networks)))"

definition listNetworks :: "env \<Rightarrow> remote \<Rightarrow> (js_error + tool_result) \<times> call_log" where
  "listNetworks E R =
     render_call
       (api_request R
          \<lparr>req_method = GET,
           req_url = ''/api/endpoints/'' @ endpoint_id E @ ''/docker/networks'',
           req_data = JUndef,
           req_config = JUndef\<rparr> [])
       listNetworks_text"

subsection \<open>getSystemInfo and deployStack\<close>

definition getSystemInfo_text :: "env \<Rightarrow> jsval \<Rightarrow> js_error + string" where
  "getSystemInfo_text E info =
     (if nullish info then Inl TypeError
      else Inr (''Docker System Information:'' @ nl @ nl
           @ desktop_sign @ ''  Server Version: '' @ js_string (field info ''ServerVersion'') @ nl
           @ penguin_sign @ '' OS: '' @ js_string (field info ''OperatingSystem'') @ nl
           @ crane_sign @ ''  Architecture: '' @ js_string (field info ''Architecture'') @ nl
           @ disk_sign @ '' Total Memory: '' @ gb_fixed2 E (field info ''MemTotal'') @ '' GB'' @ nl
           @ abacus_sign @ '' CPUs: '' @ js_string (field info ''NCPU'') @ nl
           @ package_sign @ '' Containers: '' @ js_string (field info ''Containers'')
           @ '' (Running: '' @ js_string (field info ''ContainersRunning'') @ '')'' @ nl
           @ picture_sign @ ''  Images: '' @ js_string (field info ''Images'') @ nl
           @ optical_disk_sign @ '' Storage Driver: '' @ js_string (field info ''Driver'') @ nl
           @ folder_sign @ '' Docker Root: '' @ js_string (field info ''DockerRootDir'')))"

definition getSystemInfo :: "env \<Rightarrow> remote \<Rightarrow> (js_error + tool_result) \<times> call_log" where
  "getSystemInfo E R =
     render_call
       (api_request R
          \<lparr>req_method = GET,
           req_url = ''/api/endpoints/'' @ endpoint_id E @ ''/docker/info'',
           req_data = JUndef,
           req_config = JUndef\<rparr> [])
       (getSystemInfo_text E)"

definition deployStack :: "env \<Rightarrow> remote \<Rightarrow> jsval \<Rightarrow> (js_error + tool_result) \<times> call_log" where
  "deployStack E R args =
     (if nullish args then (Inl TypeError, [])
      else render_call
             (api_request R
                \<lparr>req_method = POST,
                 req_url = ''/api/stacks?endpointId='' @ endpoint_id E @ ''&method=string&type=2'',
                 req_data =
                   JObj [(''Name'', field args ''name''),
                         (''StackFileContent'', field args ''compose_content''),
                         (''Env'', js_or (field args ''env'') (JArr []))],
                 req_config = JUndef\<rparr> [])
             (\<lambda>d. and_then (get_prop d ''Id'') (\<lambda>stack_id.
                  Inr (check_mark @ '' Stack '' @ sq @ js_string (field args ''name'') @ sq
                       @ '' deployed successfully!'' @ nl @ ''Stack ID: '' @ js_string stack_id))))"

section \<open>The tool-call handler\<close>

text \<open>
  A \<^verbatim>\<open>tools/call\<close> request: the name, a string, and the arguments, which the protocol
  lets the caller leave out (\<^verbatim>\<open>undefined\<close> then).
\<close>

record tool_call =
  call_name :: string
  call_arguments :: jsval

definition action_warning :: "jsval \<Rightarrow> string" where
  "action_warning action =
     warning_sign @ '' This action ('' @ js_string action
     @ '') requires confirmation. Please set confirm=true to proceed.''"

definition create_warning :: string where
  "create_warning =
     warning_sign @ '' Creating a container requires confirmation. Please set confirm=true to proceed.''"

definition deploy_warning :: string where
  "deploy_warning =
     warning_sign @ '' Deploying a stack requires confirmation. Please set confirm=true to proceed.''"

text \<open>The \<^verbatim>\<open>switch (name)\<close> of the handler, inside its \<^verbatim>\<open>try\<close>.\<close>

definition dispatch ::
  "env \<Rightarrow> remote \<Rightarrow> string \<Rightarrow> jsval \<Rightarrow> (js_error + tool_result) \<times> call_log" where
  "dispatch E R name args =
     (if name = ''portainer_list_containers'' then
        (if nullish args then (Inl TypeError, []) else listContainers E R (field args ''all''))
      else if name = ''portainer_container_info'' then
        (if nullish args then (Inl TypeError, [])
         else getContainerInfo E R (field args ''container_id''))
      else if name = ''portainer_container_logs'' then
        (if nullish args then (Inl TypeError, [])
         else getContainerLogs E R (field args ''container_id'') (field args ''tail''))
      else if name = ''portainer_container_action'' then
        (if nullish args then (Inl TypeError, [])
         else (case js_requiresConfirmation (field args ''action'') of
                 Inl e \<Rightarrow> (Inl e, [])
               | Inr required \<Rightarrow>
                   if required \<and> \<not> truthy (field args ''confirm'')
                   then (Inr (text_result (action_warning (field args ''action''))), [])
                   else containerAction E R (field args ''container_id'') (field args ''action'')))
      else if name = ''portainer_create_container'' then
        (if nullish args then (Inl TypeError, [])
         else if \<not> truthy (field args ''confirm'')
         then (Inr (text_result create_warning), [])
         else createContainer E R args)
      else if name = ''portainer_list_images'' then listImages E R
      else if name = ''portainer_list_volumes'' then listVolumes E R
      else if name = ''portainer_list_networks'' then listNetworks E R
      else if name = ''portainer_system_info'' then getSystemInfo E R
      else if name = ''portainer_deploy_stack'' then
        (if nullish args then (Inl TypeError, [])
         else if \<not> truthy (field args ''confirm'')
         then (Inr (text_result deploy_warning), [])
         else deployStack E R args)
      else (Inl (McpError MethodNotFound (''Unknown tool: '' @ name)), []))"

text \<open>
  The \<^verbatim>\<open>catch\<close>: an error that carries a response becomes an \<^verbatim>\<open>McpError\<close> with the
  status and the body; every other error is thrown on as it is.
\<close>

definition catch_error :: "env \<Rightarrow> js_error + tool_result \<Rightarrow> js_error + tool_result" where
  "catch_error E r =
     (case r of
        Inl (AxiosError (Some (st, body))) \<Rightarrow>
          Inl (McpError InternalError
                 (''Portainer API error: '' @ show_nat st @ '' - '' @ json_stringify E body))
      | _ \<Rightarrow> r)"

text \<open>The handler of \<^verbatim>\<open>CallToolRequestSchema\<close>: the result or the error, and the calls made.\<close>

definition call_tool :: "env \<Rightarrow> remote \<Rightarrow> tool_call \<Rightarrow> (js_error + tool_result) \<times> call_log" where
  "call_tool E R call =
     (if \<not> token_configured E
      then (Inl (McpError InternalError ''PORTAINER_TOKEN not configured''), [])
      else (let r = dispatch E R (call_name call) (call_arguments call)
            in (catch_error E (fst r), snd r)))"

section \<open>The tool registry\<close>

text \<open>The descriptors the handler of \<^verbatim>\<open>ListToolsRequestSchema\<close> returns, as written.\<close>

definition tools :: "jsval list" where
  "tools =
    [JObj [(''name'', JStr ''portainer_list_containers''),
           (''description'', JStr ''List all containers on the NAS''),
           (''inputSchema'', JObj
              [(''type'', JStr ''object''),
               (''properties'', JObj
                  [(''all'', JObj [(''type'', JStr ''boolean''),
                                   (''description'', JStr ''Show all containers (including stopped)''),
                                   (''default'', JBool True)])])])],
     JObj [(''name'', JStr ''portainer_container_info''),
           (''description'', JStr ''Get detailed info about a specific container''),
           (''inputSchema'', JObj
              [(''type'', JStr ''object''),
               (''properties'', JObj
                  [(''container_id'', JObj [(''type'', JStr ''string''),
                                            (''description'', JStr ''Container ID or name'')])]),
               (''required'', JArr [JStr ''container_id''])])],
     JObj [(''name'', JStr ''portainer_container_logs''),
           (''description'', JStr ''Get logs from a container''),
           (''inputSchema'', JObj
              [(''type'', JStr ''object''),
               (''properties'', JObj
                  [(''container_id'', JObj [(''type'', JStr ''string''),
                                            (''description'', JStr ''Container ID or name'')]),
                   (''tail'', JObj [(''type'', JStr ''number''),
                                    (''description'', JStr ''Number of lines to show from the end''),
                                    (''default'', JNum 100)])]),
               (''required'', JArr [JStr ''container_id''])])],
     JObj [(''name'', JStr ''portainer_container_action''),
           (''description'', JStr ''Perform action on container (start/stop/restart/pause/unpause)''),
           (''inputSchema'', JObj
              [(''type'', JStr ''object''),
               (''properties'', JObj
                  [(''container_id'', JObj [(''type'', JStr ''string''),
                                            (''description'', JStr ''Container ID or name'')]),
                   (''action'', JObj [(''type'', JStr ''string''),
                                      (''enum'', JArr [JStr ''start'', JStr ''stop'', JStr ''restart'',
                                                       JStr ''pause'', JStr ''unpause'']),
                                      (''description'', JStr ''Action to perform'')]),
                   (''confirm'', JObj [(''type'', JStr ''boolean''),
                                       (''description'', JStr ''Confirmation for destructive actions''),
                                       (''default'', JBool False)])]),
               (''required'', JArr [JStr ''container_id'', JStr ''action''])])],
     JObj [(''name'', JStr ''portainer_create_container''),
           (''description'', JStr ''Create a new container from an image''),
           (''inputSchema'', JObj
              [(''type'', JStr ''object''),
               (''properties'', JObj
                  [(''name'', JObj [(''type'', JStr ''string''),
                                    (''description'', JStr ''Container name'')]),
                   (''image'', JObj [(''type'', JStr ''string''),
                                     (''description'', JStr ''Docker image to use'')]),
                   (''env'', JObj [(''type'', JStr ''array''),
                                   (''items'', JObj [(''type'', JStr ''string'')]),
                                   (''description'', JStr ''Environment variables (KEY=VALUE format)'')]),
                   (''ports'', JObj [(''type'', JStr ''array''),
                                     (''items'', JObj
                                        [(''type'', JStr ''object''),
                                         (''properties'', JObj
                                            [(''host'', JObj [(''type'', JStr ''number'')]),
                                             (''container'', JObj [(''type'', JStr ''number'')])])]),
                                     (''description'', JStr ''Port mappings'')]),
                   (''volumes'', JObj [(''type'', JStr ''array''),
                                       (''items'', JObj
                                          [(''type'', JStr ''object''),
                                           (''properties'', JObj
                                              [(''host'', JObj [(''type'', JStr ''string'')]),
                                               (''container'', JObj [(''type'', JStr ''string'')])])]),
                                       (''description'', JStr ''Volume mappings'')]),
                   (''restart_policy'', JObj [(''type'', JStr ''string''),
                                              (''enum'', JArr [JStr ''no'', JStr ''always'',
                                                               JStr ''unless-stopped'', JStr ''on-failure'']),
                                              (''default'', JStr ''unless-stopped'')]),
                   (''confirm'', JObj [(''type'', JStr ''boolean''),
                                       (''description'', JStr ''Confirmation to create container''),
                                       (''default'', JBool False)])]),
               (''required'', JArr [JStr ''name'', JStr ''image'', JStr ''confirm''])])],
     JObj [(''name'', JStr ''portainer_list_images''),
           (''description'', JStr ''List all Docker images on the NAS''),
           (''inputSchema'', JObj [(''type'', JStr ''object''), (''properties'', JObj [])])],
     JObj [(''name'', JStr ''portainer_list_volumes''),
           (''description'', JStr ''List all Docker volumes on the NAS''),
           (''inputSchema'', JObj [(''type'', JStr ''object''), (''properties'', JObj [])])],
     JObj [(''name'', JStr ''portainer_list_networks''),
           (''description'', JStr ''List all Docker networks on the NAS''),
           (''inputSchema'', JObj [(''type'', JStr ''object''), (''properties'', JObj [])])],
     JObj [(''name'', JStr ''portainer_system_info''),
           (''description'', JStr ''Get Docker system information''),
           (''inputSchema'', JObj [(''type'', JStr ''object''), (''properties'', JObj [])])],
     JObj [(''name'', JStr ''portainer_deploy_stack''),
           (''description'', JStr ''Deploy a docker-compose stack''),
           (''inputSchema'', JObj
              [(''type'', JStr ''object''),
               (''properties'', JObj
                  [(''name'', JObj [(''type'', JStr ''string''),
                                    (''description'', JStr ''Stack name'')]),
                   (''compose_content'', JObj [(''type'', JStr ''string''),
                                               (''description'', JStr ''Docker compose file content (YAML)'')]),
                   (''env'', JObj [(''type'', JStr ''array''),
                                   (''items'', JObj
                                      [(''type'', JStr ''object''),
                                       (''properties'', JObj
                                          [(''name'', JObj [(''type'', JStr ''string'')]),
                                           (''value'', JObj [(''type'', JStr ''string'')])])]),
                                   (''description'', JStr ''Environment variables for the stack'')]),
                   (''confirm'', JObj [(''type'', JStr ''boolean''),
                                       (''description'', JStr ''Confirmation to deploy stack''),
                                       (''default'', JBool False)])]),
               (''required'', JArr [JStr ''name'', JStr ''compose_content'', JStr ''confirm''])])]]"

definition list_tools :: jsval where
  "list_tools = JObj [(''tools'', JArr tools)]"

text \<open>
  Reading a descriptor: its name, the parameters its schema marks as required (none
  when the schema has no \<^verbatim>\<open>required\<close> entry), and the values its schema allows for a
  parameter (\<open>None\<close> when the parameter is not enumerated).
\<close>

definition tool_name :: "jsval \<Rightarrow> jsval" where
  "tool_name d = field d ''name''"

definition required_params :: "jsval \<Rightarrow> jsval list" where
  "required_params d =
     (case field (field d ''inputSchema'') ''required'' of JArr ps \<Rightarrow> ps | _ \<Rightarrow> [])"

definition allowed_values :: "jsval \<Rightarrow> string \<Rightarrow> jsval list option" where
  "allowed_values d param =
     (case field (field (field (field d ''inputSchema'') ''properties'') param) ''enum'' of
        JArr vs \<Rightarrow> Some vs
      | _ \<Rightarrow> None)"

definition descriptors_named :: "string \<Rightarrow> jsval list" where
  "descriptors_named n = filter (\<lambda>d. tool_name d = JStr n) tools"

text \<open>
  The table of section 6 of the specification: each tool name with the parameters the
  table lists as required.
\<close>

definition spec_table :: "(string \<times> string list) list" where
  "spec_table =
     [(''list_containers'', []),
      (''container_info'', [''container_id'']),
      (''container_logs'', [''container_id'']),
      (''container_action'', [''container_id'', ''action'']),
      (''create_container'', [''name'', ''image'', ''confirm'']),
      (''list_images'', []),
      (''list_volumes'', []),
      (''list_networks'', []),
      (''system_info'', []),
      (''deploy_stack'', [''name'', ''compose_content'', ''confirm''])]"

text \<open>A row of the table matched against the registry, the names taken with the prefix
  the registry gives them.\<close>

definition row_matches :: "string \<times> string list \<Rightarrow> bool" where
  "row_matches row =
     (case row of (n, ps) \<Rightarrow>
        \<exists>d. descriptors_named (''portainer_'' @ n) = [d]
             \<and> required_params d = map JStr ps
             \<and> (n = ''container_action'' \<longrightarrow>
                  allowed_values d ''action''
                    = Some [JStr ''start'', JStr ''stop'', JStr ''restart'', JStr ''pause'',
                            JStr ''unpause'']))"

text \<open>The names the \<^verbatim>\<open>switch\<close> of the handler has a \<^verbatim>\<open>case\<close> for.\<close>

definition handler_names :: "string list" where
  "handler_names =
     [''portainer_list_containers'', ''portainer_container_info'', ''portainer_container_logs'',
      ''portainer_container_action'', ''portainer_create_container'', ''portainer_list_images'',
      ''portainer_list_volumes'', ''portainer_list_networks'', ''portainer_system_info'',
      ''portainer_deploy_stack'']"

section \<open>Remote resources as the specification describes them\<close>

text \<open>
  A container of the remote list, with the fields the specification names: the full id,
  the first name, the image, the status text, the state and the ports, each port with
  its container port and, when published, its host port. \<open>describes_container c j\<close>
  says that the JSON value \<open>j\<close> of a response carries these fields with these values
  (and whatever else).
\<close>

record port_entry =
  private_port :: nat
  public_port :: "nat option"

record container_summary =
  full_id :: string
  first_name :: string
  image_name :: string
  status_text :: string
  state_name :: string
  port_list :: "port_entry list"







section \<open>The creation payload as the specification describes it\<close>










section \<open>Sample configurations and remotes\<close>

text \<open>
  Concrete inputs for the closed examples: an environment with a given token, no
  endpoint id, and \<^verbatim>\<open>String\<close> standing in for the platform functions (the
  examples print through them only \<^verbatim>\<open>null\<close>, on which \<^verbatim>\<open>JSON.stringify\<close> and
  \<^verbatim>\<open>String\<close> agree); remotes that answer every call alike, and one that answers
  the first call of an invocation with a created container and fails every later call.
\<close>

definition sample_env :: "string option \<Rightarrow> env" where
  "sample_env token =
     \<lparr>PORTAINER_TOKEN = token, PORTAINER_ENDPOINT_ID = None, json_stringify = js_string,
      mb_fixed2 = js_string, gb_fixed2 = js_string, locale_date = js_string\<rparr>"

definition remote_always :: "response \<Rightarrow> remote" where
  "remote_always rs = (\<lambda>lg rq. rs)"

definition remote_create_then_fail :: remote where
  "remote_create_then_fail =
     (\<lambda>lg rq. if lg = [] then Success (JObj [(''Id'', JStr ''0123456789abcdef0123'')])
              else HttpFailure 500 JNull)"

section \<open>How a failed remote call shows in a run\<close>

text \<open>
  A run (the outcome and the log) surfaces remote failures when a call answered outside
  2xx is the last call of the log, every call before it succeeded, and the outcome is
  the rejection of that call.
\<close>

definition surfaces_failure :: "(js_error + 'a) \<times> call_log \<Rightarrow> bool" where
  "surfaces_failure r =
     (\<forall>rq st body. (rq, HttpFailure st body) \<in> set (snd r) \<longrightarrow>
        fst r = Inl (AxiosError (Some (st, body)))
        \<and> (\<exists>before. snd r = before @ [(rq, HttpFailure st body)]
                     \<and> (\<forall>c \<in> set before. \<exists>d. snd c = Success d)))"

section \<open>Basic facts\<close>

lemma and_then_Inr [simp]: "and_then (Inr x) f = f x"
  by (simp add: and_then_def)

lemma and_then_Inl [simp]: "and_then (Inl e) f = Inl e"
  by (simp add: and_then_def)








section \<open>The safety gate decides by substring\<close>










section \<open>The confirmation gate\<close>

text \<open>
  C2, as the code has it. When the API key is configured and the call carries
  arguments (not \<^verbatim>\<open>undefined\<close>), with \<^verbatim>\<open>confirm\<close> absent, false or otherwise falsy:
  a \<^verbatim>\<open>portainer_container_action\<close> whose action requires confirmation, a
  \<^verbatim>\<open>portainer_create_container\<close> and a \<^verbatim>\<open>portainer_deploy_stack\<close> each return a
  successful result whose text is the warning, and make no remote call.
\<close>

theorem unconfirmed_calls_warn:
  assumes "token_configured E" and "\<not> nullish args" and "\<not> truthy (field args ''confirm'')"
  shows "(field args ''action'' = JStr a \<and> requiresConfirmation a \<longrightarrow>
            call_tool E R \<lparr>call_name = ''portainer_container_action'', call_arguments = args\<rparr>
              = (Inr (text_result (action_warning (JStr a))), []))
         \<and> call_tool E R \<lparr>call_name = ''portainer_create_container'', call_arguments = args\<rparr>
              = (Inr (text_result create_warning), [])
         \<and> call_tool E R \<lparr>call_name = ''portainer_deploy_stack'', call_arguments = args\<rparr>
              = (Inr (text_result deploy_warning), [])"
  using assms
  by (simp add: call_tool_def dispatch_def catch_error_def js_requiresConfirmation_def)

theorem unconfirmed_calls_warn_witness:
  "token_configured (sample_env (Some ''key''))
   \<and> \<not> nullish (JObj [(''container_id'', JStr ''web''), (''action'', JStr ''stop'')])
   \<and> \<not> truthy (field (JObj [(''container_id'', JStr ''web''), (''action'', JStr ''stop'')]) ''confirm'')
   \<and> requiresConfirmation ''stop''
   \<and> call_tool (sample_env (Some ''key'')) (remote_always NoResponse)
        \<lparr>call_name = ''portainer_container_action'',
         call_arguments = JObj [(''container_id'', JStr ''web''), (''action'', JStr ''stop'')]\<rparr>
      = (Inr (text_result (action_warning (JStr ''stop''))), [])
   \<and> call_tool (sample_env (Some ''key'')) (remote_always NoResponse)
        \<lparr>call_name = ''portainer_create_container'',
         call_arguments = JObj [(''container_id'', JStr ''web''), (''action'', JStr ''stop'')]\<rparr>
      = (Inr (text_result create_warning), [])
   \<and> call_tool (sample_env (Some ''key'')) (remote_always NoResponse)
        \<lparr>call_name = ''portainer_deploy_stack'',
         call_arguments = JObj [(''container_id'', JStr ''web''), (''action'', JStr ''stop'')]\<rparr>
      = (Inr (text_result deploy_warning), [])"
proof -
  let ?args = "JObj [(''container_id'', JStr ''web''), (''action'', JStr ''stop'')]"
  have t: "token_configured (sample_env (Some ''key''))"
    by (simp add: token_configured_def sample_env_def)
  have n: "\<not> nullish ?args"
    by (simp add: nullish_def)
  have c: "\<not> truthy (field ?args ''confirm'')"
    by simp
  have a: "field ?args ''action'' = JStr ''stop''"
    by simp
  have r: "requiresConfirmation ''stop''"
    by code_simp
  from unconfirmed_calls_warn [OF t n c, of "''stop''" "remote_always NoResponse"] t n c a r
  show ?thesis
    by simp
qed

text \<open>
  C2 as stated fails: without the API key an unconfirmed creation fails with the
  configuration error, and with the key but no arguments at all it fails with a
  \<^verbatim>\<open>TypeError\<close>; neither is a successful result.
\<close>

theorem unconfirmed_calls_counterexample:
  "\<not> truthy (field (JObj [(''confirm'', JBool False)]) ''confirm'')
   \<and> call_tool (sample_env None) (remote_always NoResponse)
        \<lparr>call_name = ''portainer_create_container'',
         call_arguments = JObj [(''confirm'', JBool False)]\<rparr>
      = (Inl (McpError InternalError ''PORTAINER_TOKEN not configured''), [])
   \<and> call_tool (sample_env (Some ''key'')) (remote_always NoResponse)
        \<lparr>call_name = ''portainer_create_container'', call_arguments = JUndef\<rparr>
      = (Inl TypeError, [])"
  by (simp add: call_tool_def dispatch_def catch_error_def token_configured_def sample_env_def
        nullish_def)

section \<open>The registry against the table of the specification\<close>

lemma registry_rows: "list_all row_matches spec_table"
  by (simp add: spec_table_def row_matches_def descriptors_named_def tools_def tool_name_def
        required_params_def allowed_values_def)

text \<open>
  C3, as the code has it. The registry names every tool with the prefix
  \<^verbatim>\<open>portainer_\<close>: for each row of the table, exactly one descriptor is named
  \<^verbatim>\<open>portainer_\<close> followed by the row's name, its schema requires exactly the row's
  required parameters, and the descriptor of \<^verbatim>\<open>container_action\<close> allows exactly
  start, stop, restart, pause and unpause as action.
\<close>

theorem registry_matches_table:
  assumes "(n, ps) \<in> set spec_table"
  shows "\<exists>d. descriptors_named (''portainer_'' @ n) = [d]
             \<and> required_params d = map JStr ps
             \<and> (n = ''container_action'' \<longrightarrow>
                  allowed_values d ''action''
                    = Some [JStr ''start'', JStr ''stop'', JStr ''restart'', JStr ''pause'',
                            JStr ''unpause''])"
proof -
  from registry_rows have "\<forall>row \<in> set spec_table. row_matches row"
    by (simp only: list_all_iff)
  with assms have "row_matches (n, ps)"
    by (rule bspec [rotated])
  then show ?thesis
    by (simp only: row_matches_def prod.case)
qed

theorem registry_matches_table_witness:
  "(''container_action'', [''container_id'', ''action'']) \<in> set spec_table
   \<and> (\<exists>d. descriptors_named ''portainer_container_action'' = [d]
          \<and> required_params d = [JStr ''container_id'', JStr ''action'']
          \<and> allowed_values d ''action''
               = Some [JStr ''start'', JStr ''stop'', JStr ''restart'', JStr ''pause'',
                       JStr ''unpause''])"
proof -
  have m: "(''container_action'', [''container_id'', ''action'']) \<in> set spec_table"
    by (simp add: spec_table_def)
  from registry_matches_table [OF m] m show ?thesis
    by simp
qed

text \<open>
  C3 as stated fails: no descriptor is named \<^verbatim>\<open>list_containers\<close>, the first name of
  the table.
\<close>

theorem registry_unprefixed_counterexample:
  "(''list_containers'', []) \<in> set spec_table
   \<and> descriptors_named ''list_containers'' = []
   \<and> \<not> (\<exists>d \<in> set tools. tool_name d = JStr ''list_containers'')"
  by (simp add: spec_table_def descriptors_named_def tools_def tool_name_def)

section \<open>The credential check\<close>

text \<open>
  C4. When the API key is absent (the variable unset, or set to the empty string),
  every tool call fails with the internal error \<^verbatim>\<open>PORTAINER_TOKEN not configured\<close>
  and no remote call is made, whatever the tool name and the arguments. The check is
  part of the handler of each call.
\<close>

theorem missing_token_fails_every_call:
  assumes "PORTAINER_TOKEN E = None \<or> PORTAINER_TOKEN E = Some []"
  shows "call_tool E R call = (Inl (McpError InternalError ''PORTAINER_TOKEN not configured''), [])"
  using assms by (auto simp: call_tool_def token_configured_def)

theorem missing_token_fails_every_call_witness:
  "PORTAINER_TOKEN (sample_env None) = None
   \<and> call_tool (sample_env None) (remote_always (Success (JArr [])))
        \<lparr>call_name = ''portainer_list_containers'', call_arguments = JObj []\<rparr>
      = (Inl (McpError InternalError ''PORTAINER_TOKEN not configured''), [])
   \<and> call_tool (sample_env None) (remote_always (Success (JArr [])))
        \<lparr>call_name = ''foo_bar'', call_arguments = JUndef\<rparr>
      = (Inl (McpError InternalError ''PORTAINER_TOKEN not configured''), [])"
proof -
  have t: "PORTAINER_TOKEN (sample_env None) = None"
    by (simp add: sample_env_def)
  then have "PORTAINER_TOKEN (sample_env None) = None \<or> PORTAINER_TOKEN (sample_env None) = Some []"
    by simp
  from missing_token_fails_every_call [OF this] t show ?thesis
    by simp
qed

section \<open>The creation payload and the two calls\<close>
















section \<open>Remote failures\<close>

lemma surfaces_no_calls: "surfaces_failure (r, [])"
  by (simp add: surfaces_failure_def)

lemma surfaces_render_call: "surfaces_failure (render_call (api_request R rq []) f)"
  by (auto simp: surfaces_failure_def render_call_def api_request_def Let_def
        split: response.splits)

lemma surfaces_createContainer: "surfaces_failure (createContainer E R args)"
proof (cases "build_config args")
  case (Inl e)
  then show ?thesis
    by (simp add: createContainer_def surfaces_no_calls)
next
  case cfg: (Inr cfg)
  let ?rq1 = "create_request E args cfg"
  show ?thesis
  proof (cases "R [] ?rq1")
    case (Success d)
    let ?lg = "[(?rq1, Success d)]"
    show ?thesis
    proof (cases "nullish d")
      case True
      with cfg Success show ?thesis
        by (simp add: createContainer_def api_request_def surfaces_failure_def get_prop_def)
    next
      case False
      let ?rq2 = "start_request E (field d ''Id'')"
      from False cfg Success show ?thesis
        by (cases "R ?lg ?rq2")
          (auto simp: createContainer_def api_request_def surfaces_failure_def get_prop_def
             split: sum.splits)
    qed
  next
    case (HttpFailure st body)
    with cfg show ?thesis
      by (simp add: createContainer_def api_request_def surfaces_failure_def)
  next
    case NoResponse
    with cfg show ?thesis
      by (simp add: createContainer_def api_request_def surfaces_failure_def)
  qed
qed

lemma surfaces_dispatch: "surfaces_failure (dispatch E R name args)"
  unfolding dispatch_def
  by (simp add: surfaces_no_calls surfaces_createContainer surfaces_render_call
        listContainers_def getContainerInfo_def getContainerLogs_def containerAction_def
        listImages_def listVolumes_def listNetworks_def getSystemInfo_def deployStack_def
        Let_def split: sum.splits)

text \<open>
  C6. In every tool call in which a remote call is answered outside 2xx, the call fails
  with one internal error whose message carries the status and the body of that answer;
  the failed call is the last call made, and every call before it had succeeded: nothing
  is retried and nothing is called to compensate. So when the create call succeeds and
  the start call fails, the log is the create call and the start call, and the error of
  the start call is the outcome.
\<close>

theorem remote_failure_surfaces:
  assumes "call_tool E R call = (res, lg)" and "(rq, HttpFailure st body) \<in> set lg"
  shows "res = Inl (McpError InternalError
                      (''Portainer API error: '' @ show_nat st @ '' - '' @ json_stringify E body))
         \<and> (\<exists>before. lg = before @ [(rq, HttpFailure st body)]
                      \<and> (\<forall>c \<in> set before. \<exists>d. snd c = Success d))"
proof -
  let ?r = "dispatch E R (call_name call) (call_arguments call)"
  from assms have tok: "token_configured E"
    by (auto simp: call_tool_def split: if_splits)
  with assms(1) have res: "res = catch_error E (fst ?r)" and lg: "lg = snd ?r"
    by (simp_all add: call_tool_def Let_def)
  have "surfaces_failure ?r"
    by (rule surfaces_dispatch)
  with assms(2) lg have f: "fst ?r = Inl (AxiosError (Some (st, body)))"
    and b: "\<exists>before. snd ?r = before @ [(rq, HttpFailure st body)]
                     \<and> (\<forall>c \<in> set before. \<exists>d. snd c = Success d)"
    by (auto simp: surfaces_failure_def)
  from f res have "res = Inl (McpError InternalError
                      (''Portainer API error: '' @ show_nat st @ '' - '' @ json_stringify E body))"
    by (simp add: catch_error_def)
  with b lg show ?thesis
    by simp
qed

theorem remote_failure_surfaces_witness:
  "fst (call_tool (sample_env (Some ''key'')) remote_create_then_fail
          \<lparr>call_name = ''portainer_create_container'',
           call_arguments = JObj [(''name'', JStr ''web''), (''image'', JStr ''nginx''),
                                  (''confirm'', JBool True)]\<rparr>)
     = Inl (McpError InternalError ''Portainer API error: 500 - null'')
   \<and> map (\<lambda>c. (req_url (fst c), snd c))
         (snd (call_tool (sample_env (Some ''key'')) remote_create_then_fail
                 \<lparr>call_name = ''portainer_create_container'',
                  call_arguments = JObj [(''name'', JStr ''web''), (''image'', JStr ''nginx''),
                                         (''confirm'', JBool True)]\<rparr>))
     = [(''/api/endpoints/1/docker/containers/create'',
         Success (JObj [(''Id'', JStr ''0123456789abcdef0123'')])),
        (''/api/endpoints/1/docker/containers/0123456789abcdef0123/start'',
         HttpFailure 500 JNull)]"
proof -
  let ?E = "sample_env (Some ''key'')"
  let ?args = "JObj [(''name'', JStr ''web''), (''image'', JStr ''nginx''), (''confirm'', JBool True)]"
  let ?call = "\<lparr>call_name = ''portainer_create_container'', call_arguments = ?args\<rparr>"
  let ?cfg = "JObj [(''Image'', JStr ''nginx''), (''name'', JStr ''web''), (''Env'', JArr []),
                    (''HostConfig'', JObj [(''RestartPolicy'', JObj [(''Name'', JStr ''unless-stopped'')]),
                                           (''PortBindings'', JObj []), (''Binds'', JArr [])]),
                    (''ExposedPorts'', JObj [])]"
  let ?created = "JObj [(''Id'', JStr ''0123456789abcdef0123'')]"
  let ?rq1 = "create_request ?E ?args ?cfg"
  let ?rq2 = "start_request ?E (JStr ''0123456789abcdef0123'')"
  let ?lg = "[(?rq1, Success ?created), (?rq2, HttpFailure 500 JNull)]"
  let ?res = "fst (call_tool ?E remote_create_then_fail ?call)"
  have cfg: "build_config ?args = Inr ?cfg"
    by (simp add: build_config_def nullish_def js_or_def)
  have tok: "token_configured ?E"
    by (simp add: token_configured_def sample_env_def)
  have "createContainer ?E remote_create_then_fail ?args
          = (Inl (AxiosError (Some (500, JNull))), ?lg)"
    by (simp add: createContainer_def cfg api_request_def remote_create_then_fail_def
          get_prop_def nullish_def)
  with tok have lg: "snd (call_tool ?E remote_create_then_fail ?call) = ?lg"
    by (simp add: call_tool_def dispatch_def nullish_def)
  then have run: "call_tool ?E remote_create_then_fail ?call = (?res, ?lg)"
    by (simp add: prod_eq_iff)
  have mem: "(?rq2, HttpFailure 500 JNull) \<in> set ?lg"
    by simp
  have urls: "req_url ?rq1 = ''/api/endpoints/1/docker/containers/create''"
     "req_url ?rq2 = ''/api/endpoints/1/docker/containers/0123456789abcdef0123/start''"
    by (simp_all add: create_request_def start_request_def endpoint_id_def sample_env_def)
  have msg: "''Portainer API error: '' @ show_nat 500 @ '' - ''
               @ json_stringify ?E JNull
             = ''Portainer API error: 500 - null''"
    by (simp add: show_nat.simps digit_char_def sample_env_def)
  from remote_failure_surfaces [OF run mem] have "?res = Inl (McpError InternalError
      (''Portainer API error: '' @ show_nat 500 @ '' - '' @ json_stringify ?E JNull))"
    by (rule conjunct1)
  with msg lg urls show ?thesis
    by simp
qed

section \<open>Unknown tools\<close>

text \<open>
  C7, as the code has it. When the API key is configured, a call whose name is none of
  the handler's cases fails with the error \<^verbatim>\<open>MethodNotFound\<close>, its message is
  \<^verbatim>\<open>Unknown tool: \<close> followed by the requested name, and no remote call is made.
\<close>

theorem unknown_tool_not_found:
  assumes "token_configured E" and "call_name call \<notin> set handler_names"
  shows "call_tool E R call
           = (Inl (McpError MethodNotFound (''Unknown tool: '' @ call_name call)), [])
         \<and> sublist (call_name call) (''Unknown tool: '' @ call_name call)"
proof -
  have "sublist (call_name call) (''Unknown tool: '' @ call_name call)"
    by (rule sublist_append_leftI)
  moreover from assms have "call_tool E R call
           = (Inl (McpError MethodNotFound (''Unknown tool: '' @ call_name call)), [])"
    by (simp add: call_tool_def dispatch_def handler_names_def catch_error_def)
  ultimately show ?thesis
    by (rule conjI [rotated])
qed

theorem unknown_tool_not_found_witness:
  "token_configured (sample_env (Some ''key''))
   \<and> ''foo_bar'' \<notin> set handler_names
   \<and> call_tool (sample_env (Some ''key'')) (remote_always NoResponse)
        \<lparr>call_name = ''foo_bar'', call_arguments = JObj []\<rparr>
      = (Inl (McpError MethodNotFound ''Unknown tool: foo_bar''), [])"
proof -
  have t: "token_configured (sample_env (Some ''key''))"
    by (simp add: token_configured_def sample_env_def)
  have n: "call_name \<lparr>call_name = ''foo_bar'', call_arguments = JObj []\<rparr> \<notin> set handler_names"
    by (simp add: handler_names_def)
  from unknown_tool_not_found [OF t n] t n show ?thesis
    by simp
qed

text \<open>
  C7 as stated fails: without the API key the call of an unknown tool fails with the
  configuration error, not with \<^verbatim>\<open>MethodNotFound\<close>.
\<close>

theorem unknown_tool_without_token_counterexample:
  "''foo_bar'' \<notin> set handler_names
   \<and> call_tool (sample_env None) (remote_always NoResponse)
        \<lparr>call_name = ''foo_bar'', call_arguments = JObj []\<rparr>
      = (Inl (McpError InternalError ''PORTAINER_TOKEN not configured''), [])"
  by (simp add: handler_names_def call_tool_def token_configured_def sample_env_def)

lemma handler_names_registry: "map JStr handler_names = map tool_name tools"
  by (simp add: handler_names_def tools_def tool_name_def)

section \<open>The container list\<close>








section \<open>Empty lists and missing fields\<close>

















section \<open>Identifiers as displayed\<close>









end
